theory Spec2Isabelle
  imports Complex_Main "HOL-Library.AList" "HOL-Library.Multiset"
begin

section \<open>Python values\<close>

text \<open>
  A Python \<^verbatim>\<open>dict\<close> is an association list in insertion order: \<open>map_of\<close> reads a
  key, \<open>AList.update\<close> is \<^verbatim>\<open>d[k] = v\<close> (an existing key keeps its place, a new
  key goes last) and \<open>map fst\<close> is \<^verbatim>\<open>d.keys()\<close>. Python's \<^verbatim>\<open>==\<close> on dicts
  ignores the order; \<open>dict_eq_by\<close> is that comparison, with the comparison of the values
  as a parameter so that it nests.
\<close>

type_synonym ('k, 'v) dict = "('k \<times> 'v) list"

definition dict_eq_by :: "('v \<Rightarrow> 'v \<Rightarrow> bool) \<Rightarrow> ('k, 'v) dict \<Rightarrow> ('k, 'v) dict \<Rightarrow> bool" where
  "dict_eq_by veq d1 d2 =
     (set (map fst d1) = set (map fst d2) \<and>
      list_all (\<lambda>k. rel_option veq (map_of d1 k) (map_of d2 k)) (map fst d1))"

section \<open>Cross-label block merger\<close>

text \<open>
  \<^verbatim>\<open>periods.update(structure.keys())\<close> on a Python set: every key that is not yet a
  member is added. The set is kept as a list without repetition.
\<close>

fun periods_update :: "'p list \<Rightarrow> 'p list \<Rightarrow> 'p list" where
  "periods_update periods [] = periods"
| "periods_update periods (k # ks) =
     periods_update (if k \<in> set periods then periods else periods @ [k]) ks"

definition collect_periods :: "('l, ('p, 'b) dict) dict \<Rightarrow> 'p list" where
  "collect_periods structures =
     foldl (\<lambda>periods (label_id, structure). periods_update periods (map fst structure))
       [] structures"

text \<open>
  The body of the inner loop of \<^verbatim>\<open>__merge_block_structures\<close>, for one period and
  one \<^verbatim>\<open>(label_id, structure)\<close> item. The branch \<open>None\<close> of the second
  \<open>case\<close> stands for a \<^verbatim>\<open>KeyError\<close> of \<^verbatim>\<open>result[period]\<close>; the key was
  stored just before, so it is never taken.
\<close>

definition merge_item ::
  "'p \<Rightarrow> ('p, ('l, 'b) dict) dict \<Rightarrow> 'l \<times> ('p, 'b) dict \<Rightarrow> ('p, ('l, 'b) dict) dict" where
  "merge_item period result item =
     (case item of (label_id, structure) \<Rightarrow>
       (case map_of structure period of
          None \<Rightarrow> result
        | Some block \<Rightarrow>
            (let result' = (if map_of result period = None
                            then AList.update period [] result else result)
             in case map_of result' period of
                  None \<Rightarrow> result'
                | Some blocks \<Rightarrow>
                    AList.update period (AList.update label_id block blocks) result')))"

text \<open>
  The two nested loops. Python iterates a set in an order it does not promise, so the
  order of the periods is an argument of \<open>merge_loop\<close>.
\<close>

definition merge_loop ::
  "'p list \<Rightarrow> ('l, ('p, 'b) dict) dict \<Rightarrow> ('p, ('l, 'b) dict) dict" where
  "merge_loop periods structures =
     foldl (\<lambda>result period. foldl (merge_item period) result structures) [] periods"

definition merge_block_structures ::
  "('l, ('p, 'b) dict) dict \<Rightarrow> ('p, ('l, 'b) dict) dict" where
  "merge_block_structures structures = merge_loop (collect_periods structures) structures"

text \<open>The block of a label for a period in the input, and in the merged result.\<close>

definition block_of :: "('l, ('p, 'b) dict) dict \<Rightarrow> 'p \<Rightarrow> 'l \<Rightarrow> 'b option" where
  "block_of structures period label_id =
     (case map_of structures label_id of
        None \<Rightarrow> None
      | Some structure \<Rightarrow> map_of structure period)"

definition merged_block :: "('p, ('l, 'b) dict) dict \<Rightarrow> 'p \<Rightarrow> 'l \<Rightarrow> 'b option" where
  "merged_block result period label_id =
     (case map_of result period of
        None \<Rightarrow> None
      | Some blocks \<Rightarrow> map_of blocks label_id)"

section \<open>Errors\<close>

text \<open>The exceptions the modelled code can raise. A function that can raise returns
  \<open>py_error + 'a\<close>, with \<open>Inl\<close> for the exception.\<close>

datatype py_error =
    ConfigurationError string
  | KeyError
  | ValueError
  | TypeError
  | AttributeError
  | NameError
  | IndexError
  | OSError
  | EvaluationError string
  | PlainException string

section \<open>Metadata tables\<close>

text \<open>
  A cell of a metadata table: a Python integer, a float (as a real number), a string, or
  the missing value \<^verbatim>\<open>NaN\<close> that pandas puts where a field is empty.
\<close>

datatype cell = IntC int | FloatC real | StrC string | NaN

text \<open>
  A \<^verbatim>\<open>pandas.DataFrame\<close>: the column labels, the row labels (the index) with the
  name of the index, and the data, one list of cells per row. pandas allows a label to
  occur more than once among the columns and among the rows.
\<close>

record dataframe =
  df_columns :: "string list"
  df_index :: "int list"
  df_index_name :: "string option"
  df_rows :: "cell list list"



text \<open>\<^verbatim>\<open>list.index\<close>; \<open>None\<close> is its \<^verbatim>\<open>ValueError\<close>.\<close>

fun list_index :: "'a list \<Rightarrow> 'a \<Rightarrow> nat option" where
  "list_index [] x = None"
| "list_index (y # ys) x = (if y = x then Some 0 else map_option Suc (list_index ys x))"

text \<open>\<^verbatim>\<open>[d[key] for key in keys]\<close>: a missing key raises \<^verbatim>\<open>KeyError\<close>.\<close>

fun lookup_all :: "('k, 'v) dict \<Rightarrow> 'k list \<Rightarrow> py_error + 'v list" where
  "lookup_all d [] = Inr []"
| "lookup_all d (k # ks) =
     (case map_of d k of
        None \<Rightarrow> Inl KeyError
      | Some v \<Rightarrow> (case lookup_all d ks of Inl e \<Rightarrow> Inl e | Inr vs \<Rightarrow> Inr (v # vs)))"

text \<open>The positions at which a label occurs in a list of labels.\<close>

definition positions_of :: "'a list \<Rightarrow> 'a \<Rightarrow> nat list" where
  "positions_of labels l = filter (\<lambda>i. labels ! i = l) [0..<length labels]"

text \<open>
  \<^verbatim>\<open>dataframe.groupby(names).indices\<close>. Each name must label exactly one column
  (\<^verbatim>\<open>KeyError\<close> for none, \<^verbatim>\<open>ValueError\<close> for several). The key of a row is the
  tuple of its cells in these columns; a row whose key has a missing value belongs to no
  group (pandas' default \<^verbatim>\<open>dropna=True\<close>). The result maps each key to the
  \<^emph>\<open>positions\<close> of its rows, ascending. pandas sorts the keys; here they stand in the
  order that \<open>remdups\<close> leaves, and nothing below depends on that order.
\<close>

fun grouping_positions :: "string list \<Rightarrow> string list \<Rightarrow> py_error + nat list" where
  "grouping_positions cols [] = Inr []"
| "grouping_positions cols (name # names) =
     (case positions_of cols name of
        [] \<Rightarrow> Inl KeyError
      | [i] \<Rightarrow> (case grouping_positions cols names of
                  Inl e \<Rightarrow> Inl e
                | Inr ps \<Rightarrow> Inr (i # ps))
      | _ \<Rightarrow> Inl ValueError)"

definition row_key :: "nat list \<Rightarrow> cell list \<Rightarrow> cell list" where
  "row_key ps row = map (\<lambda>i. row ! i) ps"

definition groupby_indices :: "dataframe \<Rightarrow> string list \<Rightarrow> py_error + (cell list, nat list) dict" where
  "groupby_indices df names =
     (case grouping_positions (df_columns df) names of
        Inl e \<Rightarrow> Inl e
      | Inr ps \<Rightarrow>
          (let kept = filter (\<lambda>i. NaN \<notin> set (row_key ps (df_rows df ! i)))
                        [0..<length (df_rows df)];
               keys = remdups (map (\<lambda>i. row_key ps (df_rows df ! i)) kept)
           in Inr (map (\<lambda>k. (k, filter (\<lambda>i. row_key ps (df_rows df ! i) = k) kept)) keys)))"

text \<open>\<^verbatim>\<open>{v: k for k, v in mapping.items()}\<close>\<close>

definition reverse_mapping :: "('k, 'v) dict \<Rightarrow> ('v, 'k) dict" where
  "reverse_mapping m = foldl (\<lambda>d (k, v). AList.update v k d) [] m"

text \<open>\<^verbatim>\<open>dataframe.rename(mapper, axis='columns')\<close>: a column label that is a key of
  the mapper is replaced, the others stay.\<close>

definition rename_columns :: "(string, string) dict \<Rightarrow> dataframe \<Rightarrow> dataframe" where
  "rename_columns mapper df =
     df\<lparr>df_columns :=
          map (\<lambda>c. case map_of mapper c of None \<Rightarrow> c | Some c' \<Rightarrow> c') (df_columns df)\<rparr>"

text \<open>\<^verbatim>\<open>dataframe[names]\<close>: for each name in turn, every column it labels;
  \<^verbatim>\<open>KeyError\<close> when a name labels none.\<close>

fun selected_positions :: "string list \<Rightarrow> string list \<Rightarrow> py_error + nat list" where
  "selected_positions cols [] = Inr []"
| "selected_positions cols (name # names) =
     (case positions_of cols name of
        [] \<Rightarrow> Inl KeyError
      | ps \<Rightarrow> (case selected_positions cols names of
                 Inl e \<Rightarrow> Inl e
               | Inr qs \<Rightarrow> Inr (ps @ qs)))"

definition select_columns :: "dataframe \<Rightarrow> string list \<Rightarrow> py_error + dataframe" where
  "select_columns df names =
     (case selected_positions (df_columns df) names of
        Inl e \<Rightarrow> Inl e
      | Inr ps \<Rightarrow>
          Inr (df\<lparr>df_columns := map (\<lambda>i. df_columns df ! i) ps,
                  df_rows := map (\<lambda>row. map (\<lambda>i. row ! i) ps) (df_rows df)\<rparr>))"

text \<open>\<^verbatim>\<open>dataframe.loc[labels]\<close> with a list of row \<^emph>\<open>labels\<close>: for each label in
  turn, every row it labels; \<^verbatim>\<open>KeyError\<close> when a label labels none.\<close>

fun located_positions :: "int list \<Rightarrow> int list \<Rightarrow> py_error + nat list" where
  "located_positions idx [] = Inr []"
| "located_positions idx (l # ls) =
     (case positions_of idx l of
        [] \<Rightarrow> Inl KeyError
      | ps \<Rightarrow> (case located_positions idx ls of
                 Inl e \<Rightarrow> Inl e
               | Inr qs \<Rightarrow> Inr (ps @ qs)))"

definition loc_rows :: "dataframe \<Rightarrow> int list \<Rightarrow> py_error + dataframe" where
  "loc_rows df labels =
     (case located_positions (df_index df) labels of
        Inl e \<Rightarrow> Inl e
      | Inr ps \<Rightarrow>
          Inr (df\<lparr>df_index := map (\<lambda>i. df_index df ! i) ps,
                  df_rows := map (\<lambda>i. df_rows df ! i) ps\<rparr>))"

section \<open>Temporal block partitioner\<close>

text \<open>
  Modelled from the spec: the module \<^verbatim>\<open>nxtensor.utils.time_utils\<close> with the class
  \<^verbatim>\<open>TimeResolution\<close> is not among the sources. The spec gives the ordered time-field
  list as year, month, day, hour; the zero-padded renderings of month, day and hour are
  further fields of a sample.
\<close>

definition TimeResolution_KEYS :: "string list" where
  "TimeResolution_KEYS = [''year'', ''month'', ''day'', ''hour'']"


definition INDEX_NAME :: string where
  "INDEX_NAME = ''index''"

type_synonym period = "cell list"
type_synonym block = dataframe

text \<open>The message of the \<^verbatim>\<open>ConfigurationError\<close>:
  \<^verbatim>\<open>f"'{netcdf_file_time_period}' is not a known time resolution"\<close>.\<close>

definition unknown_resolution_msg :: "string \<Rightarrow> string" where
  "unknown_resolution_msg netcdf_file_time_period =
     [CHR 0x27] @ netcdf_file_time_period @ [CHR 0x27] @ '' is not a known time resolution''"

text \<open>The last loop of \<^verbatim>\<open>__build_blocks_structure\<close>:
  \<^verbatim>\<open>result[index] = restricted_renamed_df.loc[indices[index]]\<close>, where
  \<^verbatim>\<open>indices[index]\<close> are the positions that \<^verbatim>\<open>groupby\<close> returned and
  \<^verbatim>\<open>.loc\<close> reads them as row labels.\<close>

fun collect_blocks ::
  "dataframe \<Rightarrow> (period, nat list) dict \<Rightarrow> (period, block) dict \<Rightarrow> py_error + (period, block) dict" where
  "collect_blocks restricted_renamed_df [] result = Inr result"
| "collect_blocks restricted_renamed_df ((index, positions) # indices) result =
     (case loc_rows restricted_renamed_df (map int positions) of
        Inl e \<Rightarrow> Inl e
      | Inr b \<Rightarrow> collect_blocks restricted_renamed_df indices (AList.update index b result))"

text \<open>
  \<^verbatim>\<open>__build_blocks_structure\<close>. The second component of the result is the caller's
  table when the function returns or raises: \<^verbatim>\<open>rename(..., inplace=True)\<close> and the
  assignment to \<^verbatim>\<open>renamed_df.index.name\<close> change it when \<^verbatim>\<open>inplace\<close> is set, and
  work on a copy otherwise.
\<close>

definition build_blocks_structure ::
  "dataframe \<Rightarrow> (string, string) dict \<Rightarrow> string \<Rightarrow> bool
     \<Rightarrow> (py_error + (period, block) dict) \<times> dataframe" where
  "build_blocks_structure dataframe db_metadata_mapping netcdf_file_time_period inplace =
     (case list_index TimeResolution_KEYS netcdf_file_time_period of
        None \<Rightarrow>
          (Inl (ConfigurationError (unknown_resolution_msg netcdf_file_time_period)), dataframe)
      | Some resolution_degree \<Rightarrow>
          (let list_keys = take (resolution_degree + 1) TimeResolution_KEYS in
           case lookup_all db_metadata_mapping list_keys of
             Inl e \<Rightarrow> (Inl e, dataframe)
           | Inr list_column_names \<Rightarrow>
               (case groupby_indices dataframe list_column_names of
                  Inl e \<Rightarrow> (Inl e, dataframe)
                | Inr indices \<Rightarrow>
                    (let reverse_metadata_mapping = reverse_mapping db_metadata_mapping;
                         renamed = rename_columns reverse_metadata_mapping dataframe;
                         renamed_df = renamed\<lparr>df_index_name := Some INDEX_NAME\<rparr>;
                         caller_df = (if inplace then renamed_df else dataframe)
                     in case select_columns renamed_df (map fst db_metadata_mapping) of
                          Inl e \<Rightarrow> (Inl e, caller_df)
                        | Inr restricted_renamed_df \<Rightarrow>
                            (collect_blocks restricted_renamed_df indices [], caller_df)))))"

section \<open>Block conversion\<close>



















section \<open>Region extraction\<close>

text \<open>
  Modelled from the spec: the module \<^verbatim>\<open>variable\<close> is not among the sources. A variable
  is single-level, multi-level (with its vertical level) or computed (with its postfix
  expression and the variables it is computed from); all have a string identifier,
  per-coordinate metadata (attribute name in the source file, resolution, number of
  decimals for rounding), the name of their field in the source file and a date template.
  Python floats are real numbers here.
\<close>

record coordinate_property =
  netcdf_attr_name :: string
  resolution :: real
  nb_decimal :: int

record variable_attributes =
  str_id :: string
  netcdf_attribute_name :: string
  date_template :: string
  lat_metadata :: coordinate_property
  lon_metadata :: coordinate_property

datatype variable =
    SingleLevelVariable variable_attributes
  | MultiLevelVariable variable_attributes int
  | ComputedVariable variable_attributes string "variable list"

fun attributes :: "variable \<Rightarrow> variable_attributes" where
  "attributes (SingleLevelVariable a) = a"
| "attributes (MultiLevelVariable a level) = a"
| "attributes (ComputedVariable a computation_expression variables) = a"

text \<open>A region is a two-dimensional array of values, without coordinates.\<close>

type_synonym region = "real list list"

text \<open>
  The arguments of \<^verbatim>\<open>dataset[name].sel(time=..., level=..., latitude=slice(a, b),
  longitude=slice(c, d))\<close>; the level is absent for a single-level variable.
\<close>

record selection =
  sel_name :: string
  sel_time :: string
  sel_level :: "int option"
  sel_latitude :: "real \<times> real"
  sel_longitude :: "real \<times> real"

text \<open>
  An open dataset: its coordinate axes by name, and what xarray's \<^verbatim>\<open>sel\<close>, followed
  by \<^verbatim>\<open>compute\<close> and the dropping of the coordinates, returns for a selection.
\<close>

record dataset =
  coordinates :: "(string, real list) dict"
  select_region :: "selection \<Rightarrow> py_error + region"

text \<open>
  What the code uses and neither the sources nor the spec define:
  \<^verbatim>\<open>CoordinateUtils.round_nearest(value, resolution, nb_decimal)\<close> of the absent module
  \<^verbatim>\<open>coordinate_utils\<close>, and Python's \<^verbatim>\<open>template.format(**time_dict)\<close>.
\<close>

record externals =
  round_nearest :: "real \<Rightarrow> real \<Rightarrow> int \<Rightarrow> real"
  format_date :: "string \<Rightarrow> (string, cell) dict \<Rightarrow> py_error + string"

definition unsupported_direct_msg :: string where
  "unsupported_direct_msg = ''unsupported direct extraction for variable type''"

text \<open>
  \<^verbatim>\<open>XarrayTimeSeries._extract_square_region\<close>. The bounds are computed first; the
  date is formatted; the latitude axis is read (\<^verbatim>\<open>KeyError\<close> when the dataset has no
  such axis, \<^verbatim>\<open>IndexError\<close> when it is empty) and, when its first value is greater
  than its last, the latitude bounds are exchanged; then the selection is made.
\<close>

definition extract_square_region_direct ::
  "externals \<Rightarrow> dataset \<Rightarrow> variable \<Rightarrow> (string, cell) dict \<Rightarrow> real \<Rightarrow> real \<Rightarrow> real \<Rightarrow> real
     \<Rightarrow> bool \<Rightarrow> py_error + region" where
  "extract_square_region_direct ext ds var time_dict lat0 lon0 half_lat_frame half_lon_frame
       has_to_round =
     (let lat_attribute_name = netcdf_attr_name (lat_metadata (attributes var));
          lat_resolution = resolution (lat_metadata (attributes var));
          lon_resolution = resolution (lon_metadata (attributes var));
          lat = (if has_to_round
                 then round_nearest ext lat0 lat_resolution
                        (nb_decimal (lat_metadata (attributes var)))
                 else lat0);
          lon = (if has_to_round
                 then round_nearest ext lon0 lon_resolution
                        (nb_decimal (lon_metadata (attributes var)))
                 else lon0);
          lat_min = lat - half_lat_frame + lat_resolution;
          lat_max = lat + half_lat_frame;
          lon_min = lon - half_lon_frame;
          lon_max = lon + half_lon_frame - lon_resolution
      in case format_date ext (date_template (attributes var)) time_dict of
           Inl e \<Rightarrow> Inl e
         | Inr formatted_date \<Rightarrow>
             (case map_of (coordinates ds) lat_attribute_name of
                None \<Rightarrow> Inl KeyError
              | Some lat_series \<Rightarrow>
                  (case lat_series of
                     [] \<Rightarrow> Inl IndexError
                   | first # _ \<Rightarrow>
                       (let (lat_min, lat_max) =
                              (if first > last lat_series then (lat_max, lat_min)
                               else (lat_min, lat_max))
                        in case var of
                             MultiLevelVariable a level \<Rightarrow>
                               select_region ds
                                 \<lparr>sel_name = netcdf_attribute_name a,
                                  sel_time = formatted_date,
                                  sel_level = Some level,
                                  sel_latitude = (lat_min, lat_max),
                                  sel_longitude = (lon_min, lon_max)\<rparr>
                           | SingleLevelVariable a \<Rightarrow>
                               select_region ds
                                 \<lparr>sel_name = netcdf_attribute_name a,
                                  sel_time = formatted_date,
                                  sel_level = None,
                                  sel_latitude = (lat_min, lat_max),
                                  sel_longitude = (lon_min, lon_max)\<rparr>
                           | ComputedVariable a computation_expression variables \<Rightarrow>
                               Inl (PlainException unsupported_direct_msg)))))"

text \<open>The coordinate after the optional rounding.\<close>

definition rounded :: "externals \<Rightarrow> coordinate_property \<Rightarrow> bool \<Rightarrow> real \<Rightarrow> real" where
  "rounded ext metadata has_to_round x =
     (if has_to_round then round_nearest ext x (resolution metadata) (nb_decimal metadata) else x)"

text \<open>A latitude axis stored in descending, or in ascending, order.\<close>

definition descending :: "real list \<Rightarrow> bool" where
  "descending xs = sorted_wrt (\<lambda>x y. x > y) xs"

definition ascending :: "real list \<Rightarrow> bool" where
  "ascending xs = sorted_wrt (\<lambda>x y. x < y) xs"

section \<open>Computed variables\<close>

text \<open>
  Modelled from the spec: the class \<^verbatim>\<open>XarrayRpnCalculator\<close> of the module
  \<^verbatim>\<open>xarray_utils\<close> is not among the sources. The spec's postfix evaluator walks the
  token sequence, pushes the region of an operand and, for an arithmetic operator, pops
  two operands and pushes the element-wise result; the final stack must hold exactly one
  value. An operand without a region in the mapping, or an expression that does not reduce
  to one value, is an evaluation error that names the expression. The tokens are the
  words of the expression, separated by spaces.
\<close>

fun split_words :: "string \<Rightarrow> string \<Rightarrow> string list" where
  "split_words word [] = (if word = [] then [] else [word])"
| "split_words word (c # cs) =
     (if c = CHR '' ''
      then (if word = [] then split_words [] cs else word # split_words [] cs)
      else split_words (word @ [c]) cs)"

text \<open>An identifier that is one token of an expression: not empty, without a space,
  and not an operator.\<close>

definition is_operand_token :: "string \<Rightarrow> bool" where
  "is_operand_token s = (s \<noteq> [] \<and> CHR '' '' \<notin> set s \<and> s \<notin> {''+'', ''-'', ''*'', ''/''})"

definition elementwise :: "(real \<Rightarrow> real \<Rightarrow> real) \<Rightarrow> region \<Rightarrow> region \<Rightarrow> region" where
  "elementwise f a b = map2 (map2 f) a b"

definition arithmetic_operator :: "string \<Rightarrow> (real \<Rightarrow> real \<Rightarrow> real) option" where
  "arithmetic_operator token =
     (if token = ''+'' then Some (\<lambda>x y. x + y)
      else if token = ''-'' then Some (\<lambda>x y. x - y)
      else if token = ''*'' then Some (\<lambda>x y. x * y)
      else if token = ''/'' then Some (\<lambda>x y. x / y)
      else None)"

fun rpn_eval ::
  "string \<Rightarrow> (string, region) dict \<Rightarrow> region list \<Rightarrow> string list \<Rightarrow> py_error + region" where
  "rpn_eval expression mapping stack [] =
     (case stack of [result] \<Rightarrow> Inr result | _ \<Rightarrow> Inl (EvaluationError expression))"
| "rpn_eval expression mapping stack (token # tokens) =
     (case arithmetic_operator token of
        Some f \<Rightarrow>
          (case stack of
             right # left # rest \<Rightarrow>
               rpn_eval expression mapping (elementwise f left right # rest) tokens
           | _ \<Rightarrow> Inl (EvaluationError expression))
      | None \<Rightarrow>
          (case map_of mapping token of
             None \<Rightarrow> Inl (EvaluationError expression)
           | Some operand \<Rightarrow> rpn_eval expression mapping (operand # stack) tokens))"

definition rpn_compute :: "string \<Rightarrow> (string, region) dict \<Rightarrow> py_error + region" where
  "rpn_compute expression mapping = rpn_eval expression mapping [] (split_words [] expression)"

text \<open>A variable that is read from the source file: single-level or multi-level.\<close>

fun is_leaf :: "variable \<Rightarrow> bool" where
  "is_leaf (SingleLevelVariable a) = True"
| "is_leaf (MultiLevelVariable a level) = True"
| "is_leaf (ComputedVariable a computation_expression variables) = False"

text \<open>
  The state of the visitor \<^verbatim>\<open>ExtractionComputedVariable\<close>: the regions extracted
  so far, by identifier, and the result (\<^verbatim>\<open>self.result\<close>).
\<close>

record visitor_state =
  data_array_mapping :: "(string, region) dict"
  visitor_result :: "region option"

text \<open>
  \<^verbatim>\<open>XarrayTimeSeries.extract_square_region\<close> with the visitor. The methods
  \<^verbatim>\<open>visit_SingleLevelVariable\<close>, \<^verbatim>\<open>visit_MultiLevelVariable\<close> and
  \<^verbatim>\<open>visit_ComputedVariable\<close> are in the sources. Modelled from the spec: the
  \<^verbatim>\<open>accept\<close> methods of the absent module \<^verbatim>\<open>variable\<close>, which dispatch on the kind
  of the variable; a computed variable first has its operand variables visited, in their
  order, and then is visited itself.
\<close>

fun extract_square_region ::
    "externals \<Rightarrow> dataset \<Rightarrow> (string, cell) dict \<Rightarrow> real \<Rightarrow> real \<Rightarrow> real \<Rightarrow> real
       \<Rightarrow> variable \<Rightarrow> py_error + region"
  and accept ::
    "externals \<Rightarrow> dataset \<Rightarrow> (string, cell) dict \<Rightarrow> real \<Rightarrow> real \<Rightarrow> real \<Rightarrow> real
       \<Rightarrow> variable \<Rightarrow> visitor_state \<Rightarrow> py_error + visitor_state"
  and accept_all ::
    "externals \<Rightarrow> dataset \<Rightarrow> (string, cell) dict \<Rightarrow> real \<Rightarrow> real \<Rightarrow> real \<Rightarrow> real
       \<Rightarrow> variable list \<Rightarrow> visitor_state \<Rightarrow> py_error + visitor_state"
where
  "extract_square_region ext ds time_dict lat lon half_lat_frame half_lon_frame
       (SingleLevelVariable a) =
     extract_square_region_direct ext ds (SingleLevelVariable a) time_dict lat lon
       half_lat_frame half_lon_frame True"
| "extract_square_region ext ds time_dict lat lon half_lat_frame half_lon_frame
       (MultiLevelVariable a level) =
     extract_square_region_direct ext ds (MultiLevelVariable a level) time_dict lat lon
       half_lat_frame half_lon_frame True"
| "extract_square_region ext ds time_dict lat lon half_lat_frame half_lon_frame
       (ComputedVariable a computation_expression variables) =
     (case accept ext ds time_dict lat lon half_lat_frame half_lon_frame
             (ComputedVariable a computation_expression variables)
             \<lparr>data_array_mapping = [], visitor_result = None\<rparr> of
        Inl e \<Rightarrow> Inl e
      | Inr visitor \<Rightarrow>
          (case visitor_result visitor of None \<Rightarrow> Inl TypeError | Some region \<Rightarrow> Inr region))"
| "accept ext ds time_dict lat lon half_lat_frame half_lon_frame (SingleLevelVariable a) visitor =
     (case extract_square_region_direct ext ds (SingleLevelVariable a) time_dict lat lon
             half_lat_frame half_lon_frame True of
        Inl e \<Rightarrow> Inl e
      | Inr region \<Rightarrow>
          Inr (visitor\<lparr>data_array_mapping :=
                 AList.update (str_id a) region (data_array_mapping visitor)\<rparr>))"
| "accept ext ds time_dict lat lon half_lat_frame half_lon_frame (MultiLevelVariable a level)
       visitor =
     (case extract_square_region_direct ext ds (MultiLevelVariable a level) time_dict lat lon
             half_lat_frame half_lon_frame True of
        Inl e \<Rightarrow> Inl e
      | Inr region \<Rightarrow>
          Inr (visitor\<lparr>data_array_mapping :=
                 AList.update (str_id a) region (data_array_mapping visitor)\<rparr>))"
| "accept ext ds time_dict lat lon half_lat_frame half_lon_frame
       (ComputedVariable a computation_expression variables) visitor =
     (case accept_all ext ds time_dict lat lon half_lat_frame half_lon_frame variables visitor of
        Inl e \<Rightarrow> Inl e
      | Inr visited \<Rightarrow>
          (case rpn_compute computation_expression (data_array_mapping visited) of
             Inl e \<Rightarrow> Inl e
           | Inr region \<Rightarrow> Inr (visited\<lparr>visitor_result := Some region\<rparr>)))"
| "accept_all ext ds time_dict lat lon half_lat_frame half_lon_frame [] visitor = Inr visitor"
| "accept_all ext ds time_dict lat lon half_lat_frame half_lon_frame (v # vs) visitor =
     (case accept ext ds time_dict lat lon half_lat_frame half_lon_frame v visitor of
        Inl e \<Rightarrow> Inl e
      | Inr visited \<Rightarrow>
          accept_all ext ds time_dict lat lon half_lat_frame half_lon_frame vs visited)"

section \<open>Sample inputs\<close>

text \<open>A mapping from the canonical field names to the column labels of a table, as
  \<^verbatim>\<open>create_db_metadata_mapping\<close> builds it, and a table of three samples with one
  column that the mapping does not mention.\<close>

definition sample_mapping :: "(string, string) dict" where
  "sample_mapping =
     [(''year'', ''Y''), (''month'', ''M''), (''day'', ''D''), (''hour'', ''H''),
      (''lat'', ''LAT''), (''lon'', ''LON'')]"

definition sample_table :: dataframe where
  "sample_table =
     \<lparr>df_columns = [''name'', ''Y'', ''M'', ''D'', ''H'', ''LAT'', ''LON''],
      df_index = [0, 1, 2],
      df_index_name = None,
      df_rows =
        [[StrC ''a'', IntC 2000, IntC 9, IntC 30, IntC 18, FloatC 1.5, FloatC 2],
         [StrC ''b'', IntC 2000, IntC 10, IntC 1, IntC 0, FloatC 3, FloatC 4.25],
         [StrC ''c'', IntC 2000, IntC 9, IntC 2, IntC 6, FloatC 5, FloatC 6]]\<rparr>"





text \<open>
  A rounding to the nearest multiple of the resolution and a date formatter that returns
  its template; a dataset with a descending latitude axis whose selection answers with
  the bounds it was asked for; variables on a grid of a quarter of a degree.
\<close>

definition sample_externals :: externals where
  "sample_externals =
     \<lparr>round_nearest = (\<lambda>value resolution nb_decimal.
        resolution * of_int (round (value / resolution))),
      format_date = (\<lambda>template time_dict. Inr template)\<rparr>"

definition sample_dataset :: dataset where
  "sample_dataset =
     \<lparr>coordinates = [(''latitude'', [90, 89.75, 89.5]), (''longitude'', [0, 0.25, 0.5])],
      select_region = (\<lambda>s.
        Inr [[fst (sel_latitude s), snd (sel_latitude s)],
             [fst (sel_longitude s), snd (sel_longitude s)]])\<rparr>"

definition sample_attributes :: "string \<Rightarrow> variable_attributes" where
  "sample_attributes name =
     \<lparr>str_id = name, netcdf_attribute_name = name, date_template = ''2000-10-01T00'',
      lat_metadata = \<lparr>netcdf_attr_name = ''latitude'', resolution = 0.25, nb_decimal = 2\<rparr>,
      lon_metadata = \<lparr>netcdf_attr_name = ''longitude'', resolution = 0.25, nb_decimal = 2\<rparr>\<rparr>"

definition sample_u10 :: variable where
  "sample_u10 = SingleLevelVariable (sample_attributes ''u10'')"

definition sample_v200 :: variable where
  "sample_v200 = MultiLevelVariable (sample_attributes ''v200'') 200"

definition sample_computed :: variable where
  "sample_computed =
     ComputedVariable (sample_attributes ''sum'') ''u10 v200 +'' [sample_u10, sample_v200]"

section \<open>Properties of the cross-label block merger\<close>

lemma set_periods_update: "set (periods_update ps ks) = set ps \<union> set ks"
  by (induction ks arbitrary: ps) auto

lemma distinct_periods_update: "distinct ps \<Longrightarrow> distinct (periods_update ps ks)"
  by (induction ks arbitrary: ps) auto

lemma set_collect_periods_aux:
  "set (foldl (\<lambda>periods (label_id, structure). periods_update periods (map fst structure)) ps structures)
     = set ps \<union> (\<Union>item \<in> set structures. fst ` set (snd item))"
proof (induction structures arbitrary: ps)
  case Nil
  show ?case by simp
next
  case (Cons item structures)
  obtain l s where item: "item = (l, s)" by (cases item)
  show ?case by (simp add: Cons.IH item set_periods_update Un_assoc)
qed

lemma set_collect_periods:
  "set (collect_periods structures) = (\<Union>item \<in> set structures. fst ` set (snd item))"
  by (simp add: collect_periods_def set_collect_periods_aux)

lemma merged_block_merge_item:
  "merged_block (merge_item p r (l, s)) p' l' =
     (if p' = p \<and> l' = l \<and> map_of s p \<noteq> None then map_of s p else merged_block r p' l')"
  by (auto simp: merged_block_def merge_item_def Let_def update_conv' split: option.splits)

lemma keys_merge_item:
  "fst ` set (merge_item p r (l, s)) = fst ` set r \<union> (if map_of s p = None then {} else {p})"
  by (auto simp: merge_item_def Let_def dom_update update_conv' split: option.splits)

lemma block_of_Cons:
  "block_of ((l, s) # structures) p l' = (if l' = l then map_of s p else block_of structures p l')"
  by (simp add: block_of_def)

lemma block_of_notin: "l \<notin> fst ` set structures \<Longrightarrow> block_of structures p l = None"
proof -
  assume "l \<notin> fst ` set structures"
  then have "map_of structures l = None" by (simp add: map_of_eq_None_iff)
  then show ?thesis by (simp add: block_of_def)
qed

lemma merged_block_inner:
  "distinct (map fst structures) \<Longrightarrow>
   merged_block (foldl (merge_item p) r structures) p' l' =
     (if p' = p \<and> block_of structures p l' \<noteq> None
      then block_of structures p l' else merged_block r p' l')"
proof (induction structures arbitrary: r)
  case Nil
  then show ?case by (simp add: block_of_def)
next
  case (Cons item structures)
  obtain l s where item: "item = (l, s)" by (cases item)
  from Cons.prems have d: "distinct (map fst structures)" and l: "l \<notin> fst ` set structures"
    by (auto simp: item)
  show ?case
    using block_of_notin [OF l, of p]
    by (auto simp: Cons.IH [OF d] item merged_block_merge_item block_of_Cons)
qed

lemma keys_inner:
  "fst ` set (foldl (merge_item p) r structures) =
     fst ` set r \<union> (if \<exists>item \<in> set structures. map_of (snd item) p \<noteq> None then {p} else {})"
proof (induction structures arbitrary: r)
  case Nil
  show ?case by simp
next
  case (Cons item structures)
  obtain l s where item: "item = (l, s)" by (cases item)
  show ?case by (auto simp: Cons.IH item keys_merge_item)
qed

lemma merged_block_outer:
  "distinct (map fst structures) \<Longrightarrow>
   merged_block (foldl (\<lambda>result period. foldl (merge_item period) result structures) r ps) p l =
     (if p \<in> set ps \<and> block_of structures p l \<noteq> None
      then block_of structures p l else merged_block r p l)"
  by (induction ps arbitrary: r) (auto simp: merged_block_inner)

lemma keys_outer:
  "fst ` set (foldl (\<lambda>result period. foldl (merge_item period) result structures) r ps) =
     fst ` set r \<union> {p \<in> set ps. \<exists>item \<in> set structures. map_of (snd item) p \<noteq> None}"
  by (induction ps arbitrary: r) (auto simp: keys_inner)

lemma map_of_not_None_iff: "map_of s p \<noteq> None \<longleftrightarrow> p \<in> fst ` set s"
  by (simp add: map_of_eq_None_iff)

lemma keys_merge_loop:
  "set ps = (\<Union>item \<in> set structures. fst ` set (snd item)) \<Longrightarrow>
   fst ` set (merge_loop ps structures) = (\<Union>item \<in> set structures. fst ` set (snd item))"
  unfolding merge_loop_def keys_outer map_of_not_None_iff by auto

lemma block_of_Some_period:
  "block_of structures p l = Some b \<Longrightarrow> p \<in> (\<Union>item \<in> set structures. fst ` set (snd item))"
  by (auto simp: block_of_def split: option.splits dest!: map_of_SomeD intro!: bexI rev_image_eqI)

lemma merged_block_Nil: "merged_block [] p l = None"
  by (simp add: merged_block_def)

lemma merged_block_merge_loop:
  assumes "distinct (map fst structures)"
    and "set ps = (\<Union>item \<in> set structures. fst ` set (snd item))"
  shows "merged_block (merge_loop ps structures) p l = block_of structures p l"
proof (cases "block_of structures p l")
  case None
  then show ?thesis
    unfolding merge_loop_def merged_block_outer [OF assms(1)] by (simp add: merged_block_Nil)
next
  case (Some b)
  from block_of_Some_period [OF this] assms(2) have "p \<in> set ps" by simp
  with Some show ?thesis
    unfolding merge_loop_def merged_block_outer [OF assms(1)] by simp
qed

lemma distinct_merge_item:
  "distinct (map fst r) \<Longrightarrow> distinct (map fst (merge_item p r item))"
  by (cases item) (auto simp: merge_item_def Let_def distinct_update split: option.splits)

lemma distinct_merge_loop: "distinct (map fst (merge_loop ps structures))"
proof -
  have inner: "distinct (map fst r) \<Longrightarrow> distinct (map fst (foldl (merge_item p) r xs))" for p r xs
    by (induction xs arbitrary: r) (auto simp: distinct_merge_item)
  have "distinct (map fst r) \<Longrightarrow>
    distinct (map fst (foldl (\<lambda>result period. foldl (merge_item period) result structures) r ps))" for r
    by (induction ps arbitrary: r) (auto simp: inner)
  then show ?thesis by (simp add: merge_loop_def)
qed

lemma dict_eq_byI:
  "set (map fst d1) = set (map fst d2) \<Longrightarrow>
   (\<And>k. k \<in> set (map fst d1) \<Longrightarrow> rel_option veq (map_of d1 k) (map_of d2 k)) \<Longrightarrow>
   dict_eq_by veq d1 d2"
  by (simp add: dict_eq_by_def list_all_iff)

lemma dict_eq_by_eq: "dict_eq_by (=) d1 d2 \<longleftrightarrow> map_of d1 = map_of d2"
proof
  assume h: "dict_eq_by (=) d1 d2"
  show "map_of d1 = map_of d2"
  proof
    fix k
    show "map_of d1 k = map_of d2 k"
    proof (cases "k \<in> fst ` set d1")
      case True
      from h have "\<And>k. k \<in> fst ` set d1 \<Longrightarrow> map_of d1 k = map_of d2 k"
        unfolding dict_eq_by_def list_all_iff option.rel_eq set_map by blast
      then show ?thesis using True by blast
    next
      case False
      with h have "k \<notin> fst ` set d2" by (simp add: dict_eq_by_def)
      with False have "map_of d1 k = None" "map_of d2 k = None"
        by (simp_all add: map_of_eq_None_iff)
      then show ?thesis by simp
    qed
  qed
next
  assume h: "map_of d1 = map_of d2"
  then have "dom (map_of d1) = dom (map_of d2)" by simp
  then have "fst ` set d1 = fst ` set d2" by (simp add: dom_map_of_conv_image_fst)
  with h show "dict_eq_by (=) d1 d2"
    by (simp add: dict_eq_by_def list_all_iff option.rel_eq)
qed

lemma merged_block_eq_imp_inner:
  assumes "\<And>l. merged_block r1 p l = merged_block r2 p l"
    and "p \<in> fst ` set r1" and "p \<in> fst ` set r2"
  shows "rel_option (dict_eq_by (=)) (map_of r1 p) (map_of r2 p)"
proof -
  from assms(2) obtain b1 where b1: "map_of r1 p = Some b1"
    by (cases "map_of r1 p") (auto simp: map_of_eq_None_iff)
  from assms(3) obtain b2 where b2: "map_of r2 p = Some b2"
    by (cases "map_of r2 p") (auto simp: map_of_eq_None_iff)
  from assms(1) b1 b2 have "map_of b1 = map_of b2"
    by (auto simp: merged_block_def)
  with b1 b2 show ?thesis by (simp add: dict_eq_by_eq)
qed

lemma merged_eq_intro:
  assumes "fst ` set r1 = fst ` set r2"
    and "\<And>p l. merged_block r1 p l = merged_block r2 p l"
  shows "dict_eq_by (dict_eq_by (=)) r1 r2"
proof (rule dict_eq_byI)
  show "set (map fst r1) = set (map fst r2)" using assms(1) by simp
next
  fix k assume "k \<in> set (map fst r1)"
  with assms(1) have "k \<in> fst ` set r1" "k \<in> fst ` set r2" by simp_all
  with assms(2) show "rel_option (dict_eq_by (=)) (map_of r1 k) (map_of r2 k)"
    by (rule merged_block_eq_imp_inner)
qed

lemma merge_loop_order_irrelevant:
  assumes "distinct (map fst xs)" and "distinct (map fst ys)"
    and "set xs = set ys"
    and "set ps = (\<Union>item \<in> set xs. fst ` set (snd item))"
    and "set qs = (\<Union>item \<in> set xs. fst ` set (snd item))"
  shows "dict_eq_by (dict_eq_by (=)) (merge_loop ps xs) (merge_loop qs ys)"
proof (rule merged_eq_intro)
  show "fst ` set (merge_loop ps xs) = fst ` set (merge_loop qs ys)"
    using assms by (simp add: keys_merge_loop)
next
  fix p l
  have "map_of xs = map_of ys"
    using assms(1-3) by (rule map_of_inject_set [THEN iffD2])
  then have "block_of xs p l = block_of ys p l" by (simp add: block_of_def)
  then show "merged_block (merge_loop ps xs) p l = merged_block (merge_loop qs ys) p l"
    using assms by (simp add: merged_block_merge_loop)
qed

text \<open>
  Claim C4. For per-label mappings from period to block (a dict, so the labels are
  distinct), the keys of the merged mapping are the union of the labels' periods, each
  once; under each period every label has exactly the block it has in the input, so a
  label without a block for the period is not a key of the inner mapping; and no inner
  mapping is empty.
\<close>

theorem merge_outer_join:
  assumes "distinct (map fst structures)"
  shows "set (map fst (merge_block_structures structures))
           = (\<Union>item \<in> set structures. set (map fst (snd item)))
       \<and> distinct (map fst (merge_block_structures structures))
       \<and> (\<forall>period label_id.
             merged_block (merge_block_structures structures) period label_id
               = block_of structures period label_id)
       \<and> (\<forall>period blocks.
             map_of (merge_block_structures structures) period = Some blocks \<longrightarrow> blocks \<noteq> [])"
proof (intro conjI allI impI)
  show k: "set (map fst (merge_block_structures structures))
           = (\<Union>item \<in> set structures. set (map fst (snd item)))"
    by (simp add: merge_block_structures_def keys_merge_loop set_collect_periods)
  show "distinct (map fst (merge_block_structures structures))"
    by (simp add: merge_block_structures_def distinct_merge_loop)
  show m: "merged_block (merge_block_structures structures) period label_id
               = block_of structures period label_id" for period label_id
    using assms by (simp add: merge_block_structures_def merged_block_merge_loop set_collect_periods)
  fix period blocks
  assume s: "map_of (merge_block_structures structures) period = Some blocks"
  then have "map_of (merge_block_structures structures) period \<noteq> None" by simp
  then have "period \<in> set (map fst (merge_block_structures structures))"
    by (simp add: map_of_eq_None_iff)
  with k have "\<exists>item \<in> set structures. period \<in> set (map fst (snd item))"
    by blast
  then obtain item where "item \<in> set structures" and "period \<in> fst ` set (snd item)"
    by auto
  then have "(fst item, snd item) \<in> set structures \<and> period \<in> fst ` set (snd item)"
    by simp
  then obtain l s' where ls: "(l, s') \<in> set structures" and p: "period \<in> fst ` set s'"
    by blast
  from ls assms have "map_of structures l = Some s'" by simp
  with p have "block_of structures period l \<noteq> None"
    by (simp add: block_of_def map_of_eq_None_iff)
  with m [of period l] s show "blocks \<noteq> []"
    by (auto simp: merged_block_def)
qed

theorem merge_outer_join_witness:
  "distinct (map fst [(''cyclone'', [((2000::int, 10::int), ''c10'')]),
                      (''no_cyclone'', [((2000, 9), ''n9''), ((2000, 10), ''n10'')])])
   \<and> set (map fst (merge_block_structures
         [(''cyclone'', [((2000::int, 10::int), ''c10'')]),
          (''no_cyclone'', [((2000, 9), ''n9''), ((2000, 10), ''n10'')])]))
       = {(2000, 9), (2000, 10)}
   \<and> merged_block (merge_block_structures
         [(''cyclone'', [((2000::int, 10::int), ''c10'')]),
          (''no_cyclone'', [((2000, 9), ''n9''), ((2000, 10), ''n10'')])]) (2000, 9) ''cyclone''
       = None
   \<and> merged_block (merge_block_structures
         [(''cyclone'', [((2000::int, 10::int), ''c10'')]),
          (''no_cyclone'', [((2000, 9), ''n9''), ((2000, 10), ''n10'')])]) (2000, 9) ''no_cyclone''
       = Some ''n9''"
  using merge_outer_join [of "[(''cyclone'', [((2000::int, 10::int), ''c10'')]),
          (''no_cyclone'', [((2000, 9), ''n9''), ((2000, 10), ''n10'')])]"]
  by (simp add: block_of_def insert_commute)

text \<open>
  Claim C7. Merging is commutative in the order of the labels: for two partitions \<open>A\<close>
  and \<open>B\<close> under different labels, merging them in either label order gives dicts that
  are equal as Python dicts, that is, with the same periods and, for each period, the
  same labels with the same blocks.
\<close>

theorem merge_commutative:
  assumes "a \<noteq> b"
  shows "dict_eq_by (dict_eq_by (=))
           (merge_block_structures [(a, A), (b, B)])
           (merge_block_structures [(b, B), (a, A)])"
  unfolding merge_block_structures_def
proof (rule merge_loop_order_irrelevant)
  show "distinct (map fst [(a, A), (b, B)])" using assms by simp
  show "distinct (map fst [(b, B), (a, A)])" using assms by simp
  show "set [(a, A), (b, B)] = set [(b, B), (a, A)]" by (simp add: insert_commute)
  show "set (collect_periods [(a, A), (b, B)]) = (\<Union>item\<in>set [(a, A), (b, B)]. fst ` set (snd item))"
    by (rule set_collect_periods)
  show "set (collect_periods [(b, B), (a, A)]) = (\<Union>item\<in>set [(a, A), (b, B)]. fst ` set (snd item))"
    by (simp add: set_collect_periods Un_commute)
qed

theorem merge_commutative_witness:
  "''cyclone'' \<noteq> ''no_cyclone'' \<and>
   dict_eq_by (dict_eq_by (=))
     (merge_block_structures
        [(''cyclone'', [((2000::int, 10::int), ''c10'')]),
         (''no_cyclone'', [((2000, 9), ''n9''), ((2000, 10), ''n10'')])])
     (merge_block_structures
        [(''no_cyclone'', [((2000, 9), ''n9''), ((2000, 10), ''n10'')]),
         (''cyclone'', [((2000::int, 10::int), ''c10'')])])"
  using merge_commutative [of "''cyclone''" "''no_cyclone''" "[((2000::int, 10::int), ''c10'')]"
      "[((2000, 9), ''n9''), ((2000, 10), ''n10'')]"]
  by simp

section \<open>Properties of the temporal block partitioner\<close>

subsection \<open>Errors\<close>

lemma list_index_None_iff: "list_index xs x = None \<longleftrightarrow> x \<notin> set xs"
  by (induction xs) auto

lemma list_index_Some: "list_index xs x = Some i \<Longrightarrow> i < length xs \<and> xs ! i = x"
  by (induction xs arbitrary: i) (auto split: if_splits)

lemma lookup_all_error: "lookup_all d ks = Inl e \<Longrightarrow> e = KeyError"
  by (induction ks) (auto split: option.splits sum.splits)

lemma grouping_positions_error: "grouping_positions cols names = Inl e \<Longrightarrow> e = KeyError \<or> e = ValueError"
  by (induction names) (auto split: list.splits sum.splits)

lemma groupby_indices_error: "groupby_indices df names = Inl e \<Longrightarrow> e = KeyError \<or> e = ValueError"
  by (auto simp: groupby_indices_def Let_def split: sum.splits dest: grouping_positions_error)

lemma selected_positions_error: "selected_positions cols names = Inl e \<Longrightarrow> e = KeyError"
  by (induction names) (auto split: list.splits sum.splits)

lemma select_columns_error: "select_columns df names = Inl e \<Longrightarrow> e = KeyError"
  by (auto simp: select_columns_def split: sum.splits dest: selected_positions_error)

lemma located_positions_error: "located_positions idx ls = Inl e \<Longrightarrow> e = KeyError"
  by (induction ls) (auto split: list.splits sum.splits)

lemma loc_rows_error: "loc_rows df ls = Inl e \<Longrightarrow> e = KeyError"
  by (auto simp: loc_rows_def split: sum.splits dest: located_positions_error)

lemma collect_blocks_error: "collect_blocks df indices result = Inl e \<Longrightarrow> e = KeyError"
  by (induction df indices result rule: collect_blocks.induct)
     (auto split: sum.splits dest: loc_rows_error)

lemma build_known_resolution_error:
  assumes "netcdf_file_time_period \<in> set TimeResolution_KEYS"
    and "fst (build_blocks_structure df m netcdf_file_time_period inplace) = Inl e"
  shows "e = KeyError \<or> e = ValueError"
proof -
  from assms(1) obtain d where d: "list_index TimeResolution_KEYS netcdf_file_time_period = Some d"
    by (cases "list_index TimeResolution_KEYS netcdf_file_time_period")
       (auto simp: list_index_None_iff)
  from assms(2) show ?thesis
    unfolding build_blocks_structure_def d
    by (auto simp: Let_def split: sum.splits
          dest: lookup_all_error groupby_indices_error select_columns_error collect_blocks_error)
qed

lemma build_unknown_resolution:
  assumes "netcdf_file_time_period \<notin> set TimeResolution_KEYS"
  shows "build_blocks_structure df m netcdf_file_time_period inplace =
           (Inl (ConfigurationError (unknown_resolution_msg netcdf_file_time_period)), df)"
  using assms by (simp add: build_blocks_structure_def list_index_None_iff [symmetric])

subsection \<open>Positions of labels\<close>





subsection \<open>Lookups\<close>





subsection \<open>Grouping is a partition\<close>




subsection \<open>Renaming\<close>








subsection \<open>Cells under mapped columns\<close>












subsection \<open>The blocks partition the table\<close>




subsection \<open>Unknown resolutions\<close>

text \<open>
  Claim C6. The partitioner raises a \<^verbatim>\<open>ConfigurationError\<close> if and only if the
  resolution is not one of the supported granularities, and the message of the error then
  is the resolution between quotes followed by \<^verbatim>\<open>is not a known time resolution\<close>; for
  a supported resolution it raises no \<^verbatim>\<open>ConfigurationError\<close>, whatever the table and
  the mapping.
\<close>

theorem configuration_error_iff:
  "((\<exists>msg. fst (build_blocks_structure df m netcdf_file_time_period inplace)
              = Inl (ConfigurationError msg))
      = (netcdf_file_time_period \<notin> set TimeResolution_KEYS))
   \<and> ((fst (build_blocks_structure df m netcdf_file_time_period inplace)
          = Inl (ConfigurationError
                   ([CHR 0x27] @ netcdf_file_time_period @ [CHR 0x27]
                      @ '' is not a known time resolution'')))
      = (netcdf_file_time_period \<notin> set TimeResolution_KEYS))"
proof (cases "netcdf_file_time_period \<in> set TimeResolution_KEYS")
  case True
  from build_known_resolution_error [OF True, of df m inplace]
  have "fst (build_blocks_structure df m netcdf_file_time_period inplace) \<noteq> Inl (ConfigurationError msg)" for msg
    by auto
  with True show ?thesis by simp
next
  case False
  then show ?thesis
    by (simp add: build_unknown_resolution unknown_resolution_msg_def)
qed

subsection \<open>The caller's table\<close>

text \<open>
  Claim C9, as amended. Without in-place renaming the caller's table is unchanged,
  whether the partitioner returns or raises. With in-place renaming the caller's table is
  either unchanged (the partitioner raised before it renamed) or has its columns renamed
  to the canonical field names \<^emph>\<open>and\<close> its index named \<^verbatim>\<open>index\<close>; the rows and the
  row labels never change, and when the partitioner returns blocks the table has been
  renamed.
\<close>

theorem inplace_frame:
  "snd (build_blocks_structure df m netcdf_file_time_period False) = df
   \<and> (snd (build_blocks_structure df m netcdf_file_time_period True) = df
      \<or> snd (build_blocks_structure df m netcdf_file_time_period True)
          = (rename_columns (reverse_mapping m) df)\<lparr>df_index_name := Some INDEX_NAME\<rparr>)
   \<and> df_rows (snd (build_blocks_structure df m netcdf_file_time_period True)) = df_rows df
   \<and> df_index (snd (build_blocks_structure df m netcdf_file_time_period True)) = df_index df
   \<and> (\<forall>blocks. fst (build_blocks_structure df m netcdf_file_time_period True) = Inr blocks
         \<longrightarrow> snd (build_blocks_structure df m netcdf_file_time_period True)
               = (rename_columns (reverse_mapping m) df)\<lparr>df_index_name := Some INDEX_NAME\<rparr>)"
  by (auto simp: build_blocks_structure_def Let_def rename_columns_def
           split: option.splits sum.splits)

theorem inplace_frame_witness:
  "fst (build_blocks_structure sample_table sample_mapping ''month'' True)
     = Inr [([IntC 2000, IntC 10],
             \<lparr>df_columns = [''year'', ''month'', ''day'', ''hour'', ''lat'', ''lon''],
              df_index = [1], df_index_name = Some ''index'',
              df_rows = [[IntC 2000, IntC 10, IntC 1, IntC 0, FloatC 3, FloatC 4.25]]\<rparr>),
            ([IntC 2000, IntC 9],
             \<lparr>df_columns = [''year'', ''month'', ''day'', ''hour'', ''lat'', ''lon''],
              df_index = [0, 2], df_index_name = Some ''index'',
              df_rows = [[IntC 2000, IntC 9, IntC 30, IntC 18, FloatC 1.5, FloatC 2],
                         [IntC 2000, IntC 9, IntC 2, IntC 6, FloatC 5, FloatC 6]]\<rparr>)]
   \<and> snd (build_blocks_structure sample_table sample_mapping ''month'' True)
     = (rename_columns (reverse_mapping sample_mapping) sample_table)
         \<lparr>df_index_name := Some INDEX_NAME\<rparr>"
proof -
  have e: "fst (build_blocks_structure sample_table sample_mapping ''month'' True)
     = Inr [([IntC 2000, IntC 10],
             \<lparr>df_columns = [''year'', ''month'', ''day'', ''hour'', ''lat'', ''lon''],
              df_index = [1], df_index_name = Some ''index'',
              df_rows = [[IntC 2000, IntC 10, IntC 1, IntC 0, FloatC 3, FloatC 4.25]]\<rparr>),
            ([IntC 2000, IntC 9],
             \<lparr>df_columns = [''year'', ''month'', ''day'', ''hour'', ''lat'', ''lon''],
              df_index = [0, 2], df_index_name = Some ''index'',
              df_rows = [[IntC 2000, IntC 9, IntC 30, IntC 18, FloatC 1.5, FloatC 2],
                         [IntC 2000, IntC 9, IntC 2, IntC 6, FloatC 5, FloatC 6]]\<rparr>)]"
    by code_simp
  from inplace_frame [of sample_table sample_mapping "''month''"] e
  have "snd (build_blocks_structure sample_table sample_mapping ''month'' True)
     = (rename_columns (reverse_mapping sample_mapping) sample_table)
         \<lparr>df_index_name := Some INDEX_NAME\<rparr>"
    by blast
  with e show ?thesis by (intro conjI)
qed

theorem inplace_frame_counterexample:
  "snd (build_blocks_structure sample_table sample_mapping ''month'' True) \<noteq> sample_table
   \<and> snd (build_blocks_structure sample_table sample_mapping ''month'' True)
       \<noteq> rename_columns (reverse_mapping sample_mapping) sample_table
   \<and> df_index_name sample_table = None
   \<and> df_index_name (snd (build_blocks_structure sample_table sample_mapping ''month'' True))
       = Some ''index''"
  by code_simp

section \<open>Properties of the block conversion\<close>















section \<open>Properties of the region extraction\<close>

subsection \<open>Orientation of the latitude axis\<close>

lemma descending_hd_last:
  assumes "descending xs" and "2 \<le> length xs"
  shows "hd xs > last xs"
proof -
  from assms(2) have "0 < length xs - 1" "length xs - 1 < length xs" by auto
  with assms(1) have "xs ! 0 > xs ! (length xs - 1)"
    unfolding descending_def sorted_wrt_iff_nth_less by blast
  moreover from assms(2) have "xs \<noteq> []" by auto
  ultimately show ?thesis by (simp add: hd_conv_nth last_conv_nth)
qed

lemma ascending_hd_last:
  assumes "ascending xs" and "2 \<le> length xs"
  shows "hd xs < last xs"
proof -
  from assms(2) have "0 < length xs - 1" "length xs - 1 < length xs" by auto
  with assms(1) have "xs ! 0 < xs ! (length xs - 1)"
    unfolding ascending_def sorted_wrt_iff_nth_less by blast
  moreover from assms(2) have "xs \<noteq> []" by auto
  ultimately show ?thesis by (simp add: hd_conv_nth last_conv_nth)
qed

lemma first_greater_last_iff:
  assumes "descending xs \<or> ascending xs" and "2 \<le> length xs"
  shows "hd xs > last xs \<longleftrightarrow> descending xs"
  using assms descending_hd_last [of xs] ascending_hd_last [of xs] by fastforce

text \<open>
  Claim C5. For a single-level or a multi-level variable, on a dataset whose latitude axis
  has at least two values in strictly descending or strictly ascending order,
  \<^verbatim>\<open>_extract_square_region\<close> selects the field of the variable at the formatted date
  (and at the level of a multi-level variable) with the bounds
  \<open>lat_min = lat - half_lat_frame + lat_resolution\<close>, \<open>lat_max = lat + half_lat_frame\<close>,
  \<open>lon_min = lon - half_lon_frame\<close> and \<open>lon_max = lon + half_lon_frame - lon_resolution\<close>,
  where \<open>lat\<close> and \<open>lon\<close> are the coordinates after the optional rounding; the latitude
  slice runs from \<open>lat_max\<close> to \<open>lat_min\<close> exactly when the axis is descending, and from
  \<open>lat_min\<close> to \<open>lat_max\<close> otherwise.
\<close>

theorem square_region_bounds:
  assumes var: "var = SingleLevelVariable a \<and> level = None
              \<or> (\<exists>l. var = MultiLevelVariable a l \<and> level = Some l)"
    and fmt: "format_date ext (date_template a) time_dict = Inr formatted_date"
    and axis: "map_of (coordinates ds) (netcdf_attr_name (lat_metadata a)) = Some lat_series"
    and mono: "descending lat_series \<or> ascending lat_series"
    and len: "2 \<le> length lat_series"
    and lat: "lat = rounded ext (lat_metadata a) has_to_round lat0"
    and lon: "lon = rounded ext (lon_metadata a) has_to_round lon0"
    and lat_min: "lat_min = lat - half_lat_frame + resolution (lat_metadata a)"
    and lat_max: "lat_max = lat + half_lat_frame"
    and lon_min: "lon_min = lon - half_lon_frame"
    and lon_max: "lon_max = lon + half_lon_frame - resolution (lon_metadata a)"
  shows "extract_square_region_direct ext ds var time_dict lat0 lon0 half_lat_frame half_lon_frame
           has_to_round =
         select_region ds
           \<lparr>sel_name = netcdf_attribute_name a,
            sel_time = formatted_date,
            sel_level = level,
            sel_latitude = (if descending lat_series then (lat_max, lat_min)
                            else (lat_min, lat_max)),
            sel_longitude = (lon_min, lon_max)\<rparr>"
proof -
  from len obtain first rest where ls: "lat_series = first # rest" by (cases lat_series) auto
  from first_greater_last_iff [OF mono len] ls
  have d: "first > last lat_series \<longleftrightarrow> descending lat_series" by simp
  from var show ?thesis
  proof
    assume "var = SingleLevelVariable a \<and> level = None"
    then show ?thesis
      using d
      by (auto simp: extract_square_region_direct_def Let_def fmt axis rounded_def
            lat lon lat_min lat_max lon_min lon_max ls)
  next
    assume "\<exists>l. var = MultiLevelVariable a l \<and> level = Some l"
    then show ?thesis
      using d
      by (auto simp: extract_square_region_direct_def Let_def fmt axis rounded_def
            lat lon lat_min lat_max lon_min lon_max ls)
  qed
qed

theorem square_region_bounds_witness:
  "extract_square_region_direct sample_externals sample_dataset
     (SingleLevelVariable (sample_attributes ''msl'')) [] 39.7 312 4 4 True
   = Inr [[43.75, 36], [308, 315.75]]"
proof -
  have h1: "SingleLevelVariable (sample_attributes ''msl'') = SingleLevelVariable (sample_attributes ''msl'') \<and> (None :: int option) = None
        \<or> (\<exists>l. SingleLevelVariable (sample_attributes ''msl'') = MultiLevelVariable (sample_attributes ''msl'') l \<and> None = Some l)"
    by simp
  have h2: "format_date sample_externals (date_template (sample_attributes ''msl'')) [] = Inr ''2000-10-01T00''"
    by (simp add: sample_externals_def sample_attributes_def)
  have h3: "map_of (coordinates sample_dataset) (netcdf_attr_name (lat_metadata (sample_attributes ''msl'')))
         = Some [90, 89.75, 89.5]"
    by (simp add: sample_dataset_def sample_attributes_def)
  have h4: "descending [90, 89.75, 89.5 :: real] \<or> ascending [90, 89.75, 89.5 :: real]"
    by (simp add: descending_def)
  have h5: "2 \<le> length [90, 89.75, 89.5 :: real]" by simp
  have d: "descending [90, 89.75, 89.5 :: real]" by (simp add: descending_def)
  have r1: "rounded sample_externals (lat_metadata (sample_attributes ''msl'')) True 39.7 = 39.75"
    by (simp add: rounded_def sample_externals_def sample_attributes_def round_def)
  have r2: "rounded sample_externals (lon_metadata (sample_attributes ''msl'')) True 312 = 312"
    by (simp add: rounded_def sample_externals_def sample_attributes_def round_def)
  have res: "resolution (lat_metadata (sample_attributes ''msl'')) = 0.25"
     "resolution (lon_metadata (sample_attributes ''msl'')) = 0.25"
     "netcdf_attribute_name (sample_attributes ''msl'') = ''msl''"
    by (simp_all add: sample_attributes_def)
  show ?thesis
    unfolding square_region_bounds [OF h1 h2 h3 h4 h5 refl refl refl refl refl refl] r1 r2 res
    by (simp add: descending_def sample_dataset_def)
qed

subsection \<open>Postfix expressions\<close>

lemma split_words_no_space:
  "CHR '' '' \<notin> set u \<Longrightarrow> split_words w (u @ cs) = split_words (w @ u) cs"
  by (induction u arbitrary: w) auto

lemma split_words_word_space:
  assumes "u \<noteq> []" and "CHR '' '' \<notin> set u"
  shows "split_words [] (u @ CHR '' '' # cs) = u # split_words [] cs"
  using assms split_words_no_space [of u "[]" "CHR '' '' # cs"] by simp

lemma split_words_sum:
  assumes "is_operand_token a" and "is_operand_token b"
  shows "split_words [] (a @ '' '' @ b @ '' +'') = [a, b, ''+'']"
proof -
  from assms have a: "a \<noteq> []" "CHR '' '' \<notin> set a" and b: "b \<noteq> []" "CHR '' '' \<notin> set b"
    by (simp_all add: is_operand_token_def)
  have "split_words [] (a @ CHR '' '' # (b @ CHR '' '' # ''+'')) = a # split_words [] (b @ CHR '' '' # ''+'')"
    by (rule split_words_word_space [OF a])
  also have "split_words [] (b @ CHR '' '' # ''+'') = b # split_words [] ''+''"
    by (rule split_words_word_space [OF b])
  also have "split_words [] ''+'' = [''+'']" by simp
  finally show ?thesis by simp
qed

lemma operand_not_operator: "is_operand_token s \<Longrightarrow> arithmetic_operator s = None"
  by (simp add: is_operand_token_def arithmetic_operator_def)

lemma plus_operator: "arithmetic_operator ''+'' = Some (\<lambda>x y. x + y)"
  by (simp add: arithmetic_operator_def)

lemma accept_leaf:
  "is_leaf v \<Longrightarrow>
   accept ext ds time_dict lat lon hl hw v visitor =
     (case extract_square_region ext ds time_dict lat lon hl hw v of
        Inl e \<Rightarrow> Inl e
      | Inr region \<Rightarrow>
          Inr (visitor\<lparr>data_array_mapping :=
                 AList.update (str_id (attributes v)) region (data_array_mapping visitor)\<rparr>))"
  by (cases v) (simp_all split: sum.splits)

lemma rpn_sum:
  assumes "is_operand_token a" and "is_operand_token b" and "a \<noteq> b"
  shows "rpn_compute (a @ '' '' @ b @ '' +'') [(a, ra), (b, rb)]
           = Inr (elementwise (\<lambda>x y. x + y) ra rb)"
  unfolding rpn_compute_def split_words_sum [OF assms(1,2)]
  using assms(3) by (simp add: operand_not_operator [OF assms(1)] operand_not_operator [OF assms(2)] plus_operator)

lemma sample_region_u10:
  "extract_square_region sample_externals sample_dataset [] 39.7 312 4 4 sample_u10
     = Inr [[43.75, 36], [308, 315.75]]"
  by (simp add: sample_u10_def extract_square_region_direct_def Let_def sample_externals_def
        sample_dataset_def sample_attributes_def round_def)

lemma sample_region_v200:
  "extract_square_region sample_externals sample_dataset [] 39.7 312 4 4 sample_v200
     = Inr [[43.75, 36], [308, 315.75]]"
  by (simp add: sample_v200_def extract_square_region_direct_def Let_def sample_externals_def
        sample_dataset_def sample_attributes_def round_def)

text \<open>
  Claim C8. For a computed variable with the expression \<^verbatim>\<open>A B +\<close> over two single-level
  or multi-level variables with the distinct identifiers \<^verbatim>\<open>A\<close> and \<^verbatim>\<open>B\<close>,
  \<^verbatim>\<open>extract_square_region\<close> returns the element-wise sum of the two regions that the
  extraction of the two variables returns for the same date, location and frame.
\<close>

theorem computed_sum:
  assumes "is_leaf va" and "is_leaf vb"
    and "is_operand_token (str_id (attributes va))"
    and "is_operand_token (str_id (attributes vb))"
    and "str_id (attributes va) \<noteq> str_id (attributes vb)"
    and "extract_square_region ext ds time_dict lat lon half_lat_frame half_lon_frame va = Inr ra"
    and "extract_square_region ext ds time_dict lat lon half_lat_frame half_lon_frame vb = Inr rb"
  shows "extract_square_region ext ds time_dict lat lon half_lat_frame half_lon_frame
           (ComputedVariable c
              (str_id (attributes va) @ '' '' @ str_id (attributes vb) @ '' +'') [va, vb])
         = Inr (elementwise (\<lambda>x y. x + y) ra rb)"
proof -
  let ?a = "str_id (attributes va)" and ?b = "str_id (attributes vb)"
  have "accept_all ext ds time_dict lat lon half_lat_frame half_lon_frame [va, vb]
          \<lparr>data_array_mapping = [], visitor_result = None\<rparr>
        = Inr \<lparr>data_array_mapping = [(?a, ra), (?b, rb)], visitor_result = None\<rparr>"
    using assms(5) by (simp add: accept_leaf [OF assms(1)] accept_leaf [OF assms(2)] assms(6,7))
  then have "accept ext ds time_dict lat lon half_lat_frame half_lon_frame
          (ComputedVariable c (?a @ '' '' @ ?b @ '' +'') [va, vb])
          \<lparr>data_array_mapping = [], visitor_result = None\<rparr>
        = Inr \<lparr>data_array_mapping = [(?a, ra), (?b, rb)],
               visitor_result = Some (elementwise (\<lambda>x y. x + y) ra rb)\<rparr>"
    by (simp only: accept.simps sum.case visitor_state.select_convs rpn_sum [OF assms(3,4,5)]
          visitor_state.update_convs)
  then show ?thesis
    by (simp only: extract_square_region.simps sum.case visitor_state.select_convs option.case)
qed

theorem computed_sum_witness:
  "extract_square_region sample_externals sample_dataset [] 39.7 312 4 4 sample_computed
     = Inr [[87.5, 72], [616, 631.5]]"
proof -
  have h1: "is_leaf sample_u10" and h2: "is_leaf sample_v200"
    by (simp_all add: sample_u10_def sample_v200_def)
  have h3: "is_operand_token (str_id (attributes sample_u10))"
    and h4: "is_operand_token (str_id (attributes sample_v200))"
    and h5: "str_id (attributes sample_u10) \<noteq> str_id (attributes sample_v200)"
    by (simp_all add: sample_u10_def sample_v200_def sample_attributes_def is_operand_token_def)
  have e: "str_id (attributes sample_u10) @ '' '' @ str_id (attributes sample_v200) @ '' +''
             = ''u10 v200 +''"
    by (simp add: sample_u10_def sample_v200_def sample_attributes_def)
  from computed_sum [OF h1 h2 h3 h4 h5 sample_region_u10 sample_region_v200,
      of "sample_attributes ''sum''"]
  show ?thesis
    unfolding e by (simp add: sample_computed_def elementwise_def)
qed

end
